theory Spec2Isabelle
  imports Main "HOL-Library.Sublist"
begin

section \<open>s3tool: a command-line client for one S3 bucket\<close>

text \<open>
  The program is the single file \<^verbatim>\<open>main.py\<close>: a class \<^verbatim>\<open>Bucket\<close> with the methods
  \<^verbatim>\<open>build_object_name\<close>, \<^verbatim>\<open>ls\<close>, \<^verbatim>\<open>upload_file\<close>, \<^verbatim>\<open>download_file\<close> and
  \<^verbatim>\<open>delete_file\<close>, and a script body that resolves four connection parameters, may
  write them to \<^verbatim>\<open>.env\<close>, connects and runs one action inside a \<^verbatim>\<open>try\<close> block.

  Everything the program asks of the outside (the clock, the host name, the file system,
  the S3 service) is a field of the record \<open>world\<close>. Every call the program makes to
  the outside, and every line it prints, is an \<open>event\<close>; a computation yields the
  events it made in order, and either the message of the exception it raised or its value.
\<close>

subsection \<open>Python strings and POSIX paths\<close>

definition endswith :: "string \<Rightarrow> string \<Rightarrow> bool" where
  "endswith s t = suffix t s"

definition startswith :: "string \<Rightarrow> string \<Rightarrow> bool" where
  "startswith s t = prefix t s"

text \<open>A string between single quotes, as the program's f-strings write \<^verbatim>\<open>'{x}'\<close>.\<close>

definition quoted :: "string \<Rightarrow> string" where
  "quoted s = CHR 0x27 # s @ [CHR 0x27]"

text \<open>\<^verbatim>\<open>sep.join(xs)\<close>.\<close>

fun join_str :: "string \<Rightarrow> string list \<Rightarrow> string" where
  "join_str sep [] = []"
| "join_str sep [x] = x"
| "join_str sep (x # y # ys) = x @ sep @ join_str sep (y # ys)"

text \<open>
  \<^verbatim>\<open>os.path.basename(p)\<close> of posixpath: \<^verbatim>\<open>i = p.rfind('/') + 1; return p[i:]\<close>,
  the part after the last slash.
\<close>

definition basename :: "string \<Rightarrow> string" where
  "basename p = rev (takeWhile (\<lambda>c. c \<noteq> CHR ''/'') (rev p))"

text \<open>
  \<^verbatim>\<open>os.path.dirname(p)\<close> of posixpath: \<^verbatim>\<open>head = p[:i]\<close> with the same \<^verbatim>\<open>i\<close>;
  unless \<^verbatim>\<open>head\<close> is empty or all slashes, its trailing slashes are stripped.
\<close>

definition dirname :: "string \<Rightarrow> string" where
  "dirname p =
     (let head = rev (dropWhile (\<lambda>c. c \<noteq> CHR ''/'') (rev p))
      in if head \<noteq> [] \<and> head \<noteq> replicate (length head) (CHR ''/'')
         then rev (dropWhile (\<lambda>c. c = CHR ''/'') (rev head))
         else head)"

text \<open>
  \<^verbatim>\<open>os.path.join(a, b)\<close> of posixpath with two arguments: an absolute \<^verbatim>\<open>b\<close>
  replaces \<^verbatim>\<open>a\<close>; an empty \<^verbatim>\<open>a\<close>, or one that ends with a slash, gets \<^verbatim>\<open>b\<close>
  appended; otherwise a slash goes between them.
\<close>

definition path_join :: "string \<Rightarrow> string \<Rightarrow> string" where
  "path_join a b =
     (if startswith b ''/'' then b
      else if a = [] \<or> endswith a ''/'' then a @ b
      else a @ ''/'' @ b)"

text \<open>\<^verbatim>\<open>s.split('/')\<close>: the segments of a key between slashes.\<close>

fun split_slash :: "string \<Rightarrow> string list" where
  "split_slash [] = [[]]"
| "split_slash (c # cs) =
     (if c = CHR ''/'' then [] # split_slash cs
      else (case split_slash cs of
              [] \<Rightarrow> [[c]]
            | seg # segs \<Rightarrow> (c # seg) # segs))"

text \<open>
  The shape \<^verbatim>\<open>YYYY-MM-DD\<close> that \<^verbatim>\<open>strftime('%Y-%m-%d')\<close> gives for a current date:
  four digits, a dash, two digits, a dash, two digits.
\<close>

definition is_digit :: "char \<Rightarrow> bool" where
  "is_digit c = (c \<in> set ''0123456789'')"

definition is_ymd :: "string \<Rightarrow> bool" where
  "is_ymd s =
     list_all2 (\<lambda>p c. if p = CHR ''-'' then c = CHR ''-'' else is_digit c) ''YYYY-MM-DD'' s"

subsection \<open>The outside world, events and computations\<close>

text \<open>The message \<^verbatim>\<open>str(e)\<close> of a raised \<^verbatim>\<open>Exception\<close>.\<close>

type_synonym exn = string

record world =
  today :: string
    \<comment> \<open>\<^verbatim>\<open>datetime.datetime.now().strftime('%Y-%m-%d')\<close>\<close>
  hostname :: string
    \<comment> \<open>\<^verbatim>\<open>socket.gethostname()\<close>\<close>
  cwd :: string
    \<comment> \<open>\<^verbatim>\<open>os.getcwd()\<close>\<close>
  isdir :: "string \<Rightarrow> bool"
    \<comment> \<open>\<^verbatim>\<open>os.path.isdir\<close>\<close>
  mkdir_error :: "string \<Rightarrow> exn option"
    \<comment> \<open>the error of \<^verbatim>\<open>os.makedirs(d, exist_ok=True)\<close> on a non-empty path, if any\<close>
  resource_error :: "string \<Rightarrow> string \<Rightarrow> string \<Rightarrow> exn option"
    \<comment> \<open>the error of \<^verbatim>\<open>boto3.resource('s3', ...)\<close> for url, access key, secret key, if any\<close>
  creation_date :: "string \<Rightarrow> exn + bool"
    \<comment> \<open>\<^verbatim>\<open>s3.Bucket(name).creation_date\<close>: an error, or whether it is truthy\<close>
  objects :: "string \<Rightarrow> exn + string list"
    \<comment> \<open>the keys of the named bucket, or the error of listing them\<close>
  upload_error :: "string \<Rightarrow> string \<Rightarrow> exn option"
    \<comment> \<open>the error of \<^verbatim>\<open>bucket.upload_file(path, key)\<close>, if any\<close>
  download_error :: "string \<Rightarrow> string \<Rightarrow> exn option"
    \<comment> \<open>the error of \<^verbatim>\<open>bucket.download_file(key, path)\<close>, if any\<close>
  delete_error :: "string \<Rightarrow> exn option"
    \<comment> \<open>the error of \<^verbatim>\<open>bucket.delete_objects\<close> for the key, if any\<close>

datatype event =
    Print string
  | Resource string string string
  | Makedirs string
  | UploadFile string string
  | DownloadFile string string
  | DeleteObjects string
  | WriteEnv "string list"

type_synonym 'a io = "event list \<times> (exn + 'a)"

definition io_return :: "'a \<Rightarrow> 'a io" where
  "io_return x = ([], Inr x)"

definition io_raise :: "exn \<Rightarrow> 'a io" where
  "io_raise e = ([], Inl e)"

definition io_emit :: "event \<Rightarrow> unit io" where
  "io_emit ev = ([ev], Inr ())"

text \<open>Sequencing: an exception of the first part skips the second.\<close>

definition io_bind :: "'a io \<Rightarrow> ('a \<Rightarrow> 'b io) \<Rightarrow> 'b io" where
  "io_bind m f =
     (case m of
        (t, Inl e) \<Rightarrow> (t, Inl e)
      | (t, Inr x) \<Rightarrow> (case f x of (t', r) \<Rightarrow> (t @ t', r)))"

text \<open>\<^verbatim>\<open>try: m  except Exception as e: raise Exception(wrap(e))\<close>.\<close>

definition io_try :: "'a io \<Rightarrow> (exn \<Rightarrow> exn) \<Rightarrow> 'a io" where
  "io_try m wrap = (case m of (t, Inl e) \<Rightarrow> (t, Inl (wrap e)) | (t, Inr x) \<Rightarrow> (t, Inr x))"

text \<open>A call to the outside that raises or returns nothing.\<close>

definition io_call :: "event \<Rightarrow> exn option \<Rightarrow> unit io" where
  "io_call ev err = ([ev], (case err of Some e \<Rightarrow> Inl e | None \<Rightarrow> Inr ()))"

text \<open>
  \<^verbatim>\<open>os.makedirs(d, exist_ok=True)\<close>: on the empty path \<^verbatim>\<open>mkdir('')\<close> fails with
  \<^verbatim>\<open>FileNotFoundError\<close>, which \<^verbatim>\<open>exist_ok\<close> does not excuse since \<^verbatim>\<open>''\<close> is no
  directory; on any other path the outcome is the world's.
\<close>

definition os_makedirs :: "world \<Rightarrow> string \<Rightarrow> unit io" where
  "os_makedirs w d =
     io_call (Makedirs d)
       (if d = [] then Some (''[Errno 2] No such file or directory: '' @ quoted [])
        else mkdir_error w d)"

subsection \<open>class Bucket\<close>

record bucket =
  url :: string
  access_key :: string
  secret_key :: string
  bucket_name :: string

definition connect :: "world \<Rightarrow> string \<Rightarrow> string \<Rightarrow> string \<Rightarrow> unit io" where
  "connect w u ak sk =
     io_try (io_call (Resource u ak sk) (resource_error w u ak sk))
       (\<lambda>e. ''Error connecting to resource: '' @ e)"

definition Bucket_init :: "world \<Rightarrow> string \<Rightarrow> string \<Rightarrow> string \<Rightarrow> string \<Rightarrow> bucket io" where
  "Bucket_init w u ak sk bn =
     io_bind (connect w u ak sk)
       (\<lambda>_. io_return \<lparr>url = u, access_key = ak, secret_key = sk, bucket_name = bn\<rparr>)"

definition get_bucket :: "world \<Rightarrow> string \<Rightarrow> unit io" where
  "get_bucket w name =
     io_try
       (case creation_date w name of
          Inl e \<Rightarrow> io_raise e
        | Inr True \<Rightarrow> io_return ()
        | Inr False \<Rightarrow>
            io_raise (''Bucket '' @ quoted name @ '' does not exist or is not accessible.''))
       (\<lambda>e. ''Error accessing bucket '' @ quoted name @ '': '' @ e)"

definition build_object_name :: "world \<Rightarrow> string \<Rightarrow> string \<Rightarrow> string" where
  "build_object_name w file_path object_name =
     (let object_name = (if object_name = [] then basename file_path else object_name);
          now = today w;
          hostname = hostname w
      in now @ ''/'' @ hostname @ ''/'' @ object_name)"

text \<open>
  \<^verbatim>\<open>bucket.objects.filter(Prefix=prefix)\<close> yields the objects whose key starts with the
  prefix; \<^verbatim>\<open>bucket.objects.all()\<close> yields them all.
\<close>

definition ls :: "world \<Rightarrow> bucket \<Rightarrow> string \<Rightarrow> string list io" where
  "ls w self directory =
     io_try
       (io_bind (get_bucket w (bucket_name self)) (\<lambda>_.
          if directory \<noteq> [] then
            (let prefix = (if directory = [] \<or> endswith directory ''/'' then directory
                           else directory @ ''/'')
             in case objects w (bucket_name self) of
                  Inl e \<Rightarrow> io_raise e
                | Inr keys \<Rightarrow> io_return (filter (\<lambda>key. startswith key prefix) keys))
          else
            (case objects w (bucket_name self) of
               Inl e \<Rightarrow> io_raise e
             | Inr keys \<Rightarrow> io_return keys)))
       (\<lambda>e. ''Error listing objects in bucket '' @ quoted (bucket_name self) @ '': '' @ e)"

definition upload_file :: "world \<Rightarrow> bucket \<Rightarrow> string \<Rightarrow> string \<Rightarrow> unit io" where
  "upload_file w self file_path object_name =
     io_try
       (io_bind (get_bucket w (bucket_name self)) (\<lambda>_.
          let final_object_name = build_object_name w file_path object_name
          in io_call (UploadFile file_path final_object_name)
               (upload_error w file_path final_object_name)))
       (\<lambda>e. ''Error uploading file '' @ quoted file_path @ '' to bucket ''
              @ quoted (bucket_name self) @ '': '' @ e)"

text \<open>
  The destination of a download, lines 66 to 69. The command line gives \<^verbatim>\<open>None\<close> for an
  absent \<^verbatim>\<open>--local_path\<close> and the method's default is \<^verbatim>\<open>''\<close>; both are falsy.
\<close>

definition download_destination :: "world \<Rightarrow> string \<Rightarrow> string option \<Rightarrow> string" where
  "download_destination w file_name destination =
     (case destination of
        None \<Rightarrow> path_join (cwd w) (basename file_name)
      | Some d \<Rightarrow>
          if d = [] then path_join (cwd w) (basename file_name)
          else if isdir w d then path_join d (basename file_name)
          else d)"

definition download_file :: "world \<Rightarrow> bucket \<Rightarrow> string \<Rightarrow> string option \<Rightarrow> unit io" where
  "download_file w self file_name destination =
     io_try
       (io_bind (get_bucket w (bucket_name self)) (\<lambda>_.
          let destination = download_destination w file_name destination
          in io_bind (os_makedirs w (dirname destination)) (\<lambda>_.
             io_bind (io_call (DownloadFile file_name destination)
                        (download_error w file_name destination)) (\<lambda>_.
             io_emit (Print (''Downloaded '' @ quoted file_name @ '' to ''
                             @ quoted destination))))))
       (\<lambda>e. ''Error downloading file '' @ quoted file_name @ '' from bucket ''
              @ quoted (bucket_name self) @ '': '' @ e)"

definition delete_file :: "world \<Rightarrow> bucket \<Rightarrow> string \<Rightarrow> unit io" where
  "delete_file w self file_name =
     io_try
       (io_bind (get_bucket w (bucket_name self)) (\<lambda>_.
          io_bind (io_call (DeleteObjects file_name) (delete_error w file_name)) (\<lambda>_.
          io_emit (Print (''Deleted '' @ quoted file_name @ '' from bucket ''
                          @ quoted (bucket_name self))))))
       (\<lambda>e. ''Error deleting file '' @ quoted file_name @ '' from bucket ''
              @ quoted (bucket_name self) @ '': '' @ e)"

subsection \<open>The script\<close>

text \<open>
  Four optional strings: the values of \<^verbatim>\<open>load_env_variables()\<close>, the connection flags as
  given on the command line, and the same four attributes of \<^verbatim>\<open>args\<close>.
\<close>

record params =
  p_access_key :: "string option"
  p_secret_key :: "string option"
  p_bucket_name :: "string option"
  p_url :: "string option"

text \<open>
  The sub-command of \<^verbatim>\<open>args\<close> with its attributes: \<^verbatim>\<open>file_path\<close> and
  \<^verbatim>\<open>object_name\<close>; \<^verbatim>\<open>directory\<close> (by default \<^verbatim>\<open>''\<close>); \<^verbatim>\<open>file_name\<close> and
  \<^verbatim>\<open>local_path\<close>; \<^verbatim>\<open>file_name\<close>.
\<close>

datatype action =
    Upload string "string option"
  | Ls string
  | Download string "string option"
  | Delete string

fun action_name :: "action \<Rightarrow> string" where
  "action_name (Upload _ _) = ''upload''"
| "action_name (Ls _) = ''ls''"
| "action_name (Download _ _) = ''download''"
| "action_name (Delete _) = ''delete''"

text \<open>
  \<^verbatim>\<open>add_argument('--x', type=str, default=d)\<close>: the attribute is the flag's value when the
  flag is on the command line, and the default otherwise.
\<close>

definition arg_value :: "string option \<Rightarrow> string option \<Rightarrow> string option" where
  "arg_value flag dflt = (case flag of Some v \<Rightarrow> Some v | None \<Rightarrow> dflt)"

definition parse_args :: "params \<Rightarrow> params \<Rightarrow> params" where
  "parse_args env_params cli =
     \<lparr>p_access_key = arg_value (p_access_key cli) (p_access_key env_params),
      p_secret_key = arg_value (p_secret_key cli) (p_secret_key env_params),
      p_bucket_name = arg_value (p_bucket_name cli) (p_bucket_name env_params),
      p_url = arg_value (p_url cli) (p_url env_params)\<rparr>"

text \<open>The dictionary \<^verbatim>\<open>s3_params\<close>, in the order of its keys.\<close>

definition s3_params :: "params \<Rightarrow> (string \<times> string option) list" where
  "s3_params args =
     [(''ACCESS_KEY'', p_access_key args),
      (''SECRET_KEY'', p_secret_key args),
      (''BUCKET_NAME'', p_bucket_name args),
      (''URL'', p_url args)]"

definition missing_s3_params :: "(string \<times> string option) list \<Rightarrow> string list" where
  "missing_s3_params ps = map fst (filter (\<lambda>(key, var). var = None) ps)"

definition cli_provided_s3_params :: "params \<Rightarrow> params \<Rightarrow> bool" where
  "cli_provided_s3_params args env_params =
     (p_bucket_name args \<noteq> p_bucket_name env_params \<or>
      p_access_key args \<noteq> p_access_key env_params \<or>
      p_secret_key args \<noteq> p_secret_key env_params \<or>
      p_url args \<noteq> p_url env_params)"

text \<open>\<^verbatim>\<open>str(x)\<close> of an optional string inside an f-string.\<close>

definition py_str :: "string option \<Rightarrow> string" where
  "py_str x = (case x of None \<Rightarrow> ''None'' | Some s \<Rightarrow> s)"

text \<open>Truthiness of an optional string: neither \<^verbatim>\<open>None\<close> nor empty.\<close>

definition truthy :: "string option \<Rightarrow> bool" where
  "truthy x = (case x of None \<Rightarrow> False | Some s \<Rightarrow> s \<noteq> [])"

text \<open>The lines written to \<^verbatim>\<open>.env\<close>, lines 158 to 161.\<close>

definition env_line :: "string \<Rightarrow> string option \<Rightarrow> string list" where
  "env_line key var = (if truthy var then [key @ ''='' @ py_str var] else [])"

definition env_lines :: "params \<Rightarrow> string list" where
  "env_lines args =
     env_line ''ACCESS_KEY'' (p_access_key args) @
     env_line ''SECRET_KEY'' (p_secret_key args) @
     env_line ''BUCKET_NAME'' (p_bucket_name args) @
     env_line ''URL'' (p_url args)"

text \<open>
  Lines 155 to 161; \<open>env_exists\<close> is \<^verbatim>\<open>os.path.exists('.env')\<close>. Opening the file
  with mode \<^verbatim>\<open>'w'\<close> is one event that carries the lines written; the write itself is
  taken to succeed.
\<close>

definition save_env :: "bool \<Rightarrow> params \<Rightarrow> params \<Rightarrow> event list" where
  "save_env env_exists args env_params =
     (if \<not> env_exists \<and> cli_provided_s3_params args env_params
      then [Print ''Saving provided S3 parameters to .env file for future use.'',
            WriteEnv (env_lines args)]
      else [])"

text \<open>The body of the \<^verbatim>\<open>try\<close>, lines 165 to 195.\<close>

definition print_files :: "string list \<Rightarrow> unit io" where
  "print_files files =
     (if files \<noteq> [] then (map (\<lambda>f. Print (''- '' @ f)) files, Inr ())
      else io_emit (Print ''No objects found.''))"

definition run_action :: "world \<Rightarrow> bucket \<Rightarrow> action \<Rightarrow> unit io" where
  "run_action w s3_instance act =
     (case act of
        Upload file_path object_name \<Rightarrow>
          (let name = (case object_name of None \<Rightarrow> [] | Some n \<Rightarrow> n)
           in io_bind (upload_file w s3_instance file_path name) (\<lambda>_.
              let final_object_name = build_object_name w file_path name
              in io_emit (Print (''File '' @ quoted file_path @ '' uploaded successfully as ''
                   @ quoted final_object_name @ '' to bucket ''
                   @ quoted (bucket_name s3_instance) @ ''.''))))
      | Ls directory \<Rightarrow>
          io_bind (io_emit (Print (''Listing objects in bucket ''
                     @ quoted (bucket_name s3_instance) @ '' (prefix: ''
                     @ quoted (if directory \<noteq> [] then directory else ''/'') @ ''):''))) (\<lambda>_.
          io_bind (ls w s3_instance directory) print_files)
      | Download file_name local_path \<Rightarrow>
          io_bind (io_emit (Print (''Attempting to download '' @ quoted file_name
                     @ '' from bucket '' @ quoted (bucket_name s3_instance) @ '' to ''
                     @ quoted (py_str local_path) @ ''...''))) (\<lambda>_.
          download_file w s3_instance file_name local_path)
      | Delete file_name \<Rightarrow>
          io_bind (io_emit (Print (''Attempting to delete '' @ quoted file_name
                     @ '' from bucket '' @ quoted (bucket_name s3_instance) @ ''...''))) (\<lambda>_.
          io_bind (delete_file w s3_instance file_name) (\<lambda>_.
          io_emit (Print (''File '' @ quoted file_name @ '' deleted successfully from bucket ''
                     @ quoted (bucket_name s3_instance) @ ''.'')))))"

definition connect_and_run ::
  "world \<Rightarrow> string \<Rightarrow> string \<Rightarrow> string \<Rightarrow> string \<Rightarrow> action \<Rightarrow> unit io" where
  "connect_and_run w u ak sk bn act =
     io_bind (io_emit (Print (''Connecting to S3 bucket: '' @ bn))) (\<lambda>_.
     io_bind (Bucket_init w u ak sk bn) (\<lambda>s3_instance.
     run_action w s3_instance act))"

text \<open>What a run of the script leaves behind: its events and the exit status of the process.\<close>

record outcome =
  trace :: "event list"
  exit_code :: nat

definition exit_missing :: "string list \<Rightarrow> outcome" where
  "exit_missing missing =
     \<lparr>trace = [Print (''Error: Missing required S3 connection parameters: ''
                       @ join_str '', '' missing),
               Print ''Please provide them via command line arguments or a .env file.''],
      exit_code = 1\<rparr>"

text \<open>
  The script, lines 97 to 199. Past the check of line 142 the four values are strings; the
  last case repeats the exit of the check and is never taken (lemma \<open>present_or_missing\<close>).
\<close>

definition main :: "world \<Rightarrow> params \<Rightarrow> bool \<Rightarrow> params \<Rightarrow> action \<Rightarrow> outcome" where
  "main w env_params env_exists cli act =
     (let args = parse_args env_params cli;
          missing = missing_s3_params (s3_params args)
      in if missing \<noteq> [] then exit_missing missing
         else (case (p_url args, p_access_key args, p_secret_key args, p_bucket_name args) of
                 (Some u, Some ak, Some sk, Some bn) \<Rightarrow>
                   (let saved = save_env env_exists args env_params
                    in case connect_and_run w u ak sk bn act of
                         (t, Inl e) \<Rightarrow>
                           \<lparr>trace = saved @ t @ [Print (''Error during action ''
                                       @ quoted (action_name act) @ '': '' @ e)],
                            exit_code = 1\<rparr>
                       | (t, Inr _) \<Rightarrow> \<lparr>trace = saved @ t, exit_code = 0\<rparr>)
               | _ \<Rightarrow> exit_missing missing))"

subsection \<open>Example inputs\<close>

text \<open>
  A world in which every call succeeds, on host \<open>build01\<close> on 17 May 2024, and one
  whose bucket has no creation date.
\<close>

definition example_world :: world where
  "example_world =
     \<lparr>today = ''2024-05-17'',
      hostname = ''build01'',
      cwd = ''/home/user'',
      isdir = (\<lambda>p. p = ''out'' \<or> p = ''/home/user''),
      mkdir_error = (\<lambda>_. None),
      resource_error = (\<lambda>_ _ _. None),
      creation_date = (\<lambda>_. Inr True),
      objects = (\<lambda>_. Inr [''a.txt'', ''dir/b.txt'', ''dir2/c.txt'']),
      upload_error = (\<lambda>_ _. None),
      download_error = (\<lambda>_ _. None),
      delete_error = (\<lambda>_. None)\<rparr>"

definition no_bucket_world :: world where
  "no_bucket_world = example_world\<lparr>creation_date := (\<lambda>_. Inr False)\<rparr>"

definition example_bucket :: bucket where
  "example_bucket =
     \<lparr>url = ''http://s3.local'', access_key = ''AK'', secret_key = ''SK'', bucket_name = ''b''\<rparr>"

definition no_params :: params where
  "no_params =
     \<lparr>p_access_key = None, p_secret_key = None, p_bucket_name = None, p_url = None\<rparr>"

definition all_params :: params where
  "all_params =
     \<lparr>p_access_key = Some ''AK'', p_secret_key = Some ''SK'', p_bucket_name = Some ''b'',
      p_url = Some ''http://s3.local''\<rparr>"

definition only_access_key :: params where
  "only_access_key =
     \<lparr>p_access_key = Some ''AK'', p_secret_key = None, p_bucket_name = None, p_url = None\<rparr>"

definition empty_access_key :: params where
  "empty_access_key =
     \<lparr>p_access_key = Some [], p_secret_key = Some ''SK'', p_bucket_name = Some ''b'',
      p_url = Some ''http://s3.local''\<rparr>"

definition only_url :: params where
  "only_url =
     \<lparr>p_access_key = None, p_secret_key = None, p_bucket_name = None,
      p_url = Some ''http://other''\<rparr>"

text \<open>Whether a trace opens \<^verbatim>\<open>.env\<close> for writing, and whether it calls \<^verbatim>\<open>boto3.resource\<close>.\<close>

fun is_write_env :: "event \<Rightarrow> bool" where
  "is_write_env (WriteEnv _) = True"
| "is_write_env _ = False"

definition env_written :: "event list \<Rightarrow> bool" where
  "env_written t = list_ex is_write_env t"

fun is_resource :: "event \<Rightarrow> bool" where
  "is_resource (Resource _ _ _) = True"
| "is_resource _ = False"

definition connection_attempted :: "event list \<Rightarrow> bool" where
  "connection_attempted t = list_ex is_resource t"

text \<open>An event that neither writes \<^verbatim>\<open>.env\<close> nor calls \<^verbatim>\<open>boto3.resource\<close>.\<close>

definition quiet :: "event \<Rightarrow> bool" where
  "quiet ev = (\<not> is_write_env ev \<and> \<not> is_resource ev)"

section \<open>Properties\<close>

subsection \<open>Paths\<close>

lemma basename_no_slash: "CHR ''/'' \<notin> set (basename p)"
proof -
  have "\<forall>c \<in> set (takeWhile (\<lambda>c. c \<noteq> CHR ''/'') (rev p)). c \<noteq> CHR ''/''"
    using set_takeWhileD by fastforce
  then show ?thesis
    by (auto simp: basename_def)
qed

lemma split_slash_no_slash: "CHR ''/'' \<notin> set s \<Longrightarrow> split_slash s = [s]"
  by (induction s) auto

lemma split_slash_append:
  "CHR ''/'' \<notin> set s \<Longrightarrow> split_slash (s @ CHR ''/'' # t) = s # split_slash t"
  by (induction s) auto

lemma list_all2_set_right:
  "list_all2 P xs ys \<Longrightarrow> (\<And>x y. P x y \<Longrightarrow> Q y) \<Longrightarrow> \<forall>y \<in> set ys. Q y"
  by (induction rule: list_all2_induct) auto

lemma is_digit_not_slash: "is_digit c \<Longrightarrow> c \<noteq> CHR ''/''"
  by (auto simp: is_digit_def)

lemma is_ymd_no_slash:
  assumes "is_ymd s"
  shows "CHR ''/'' \<notin> set s"
proof -
  have "\<forall>c \<in> set s. c \<noteq> CHR ''/''"
  proof (rule list_all2_set_right)
    show "list_all2 (\<lambda>p c. if p = CHR ''-'' then c = CHR ''-'' else is_digit c) ''YYYY-MM-DD'' s"
      using assms by (simp only: is_ymd_def)
  next
    fix p c
    assume "if p = CHR ''-'' then c = CHR ''-'' else is_digit c"
    then show "c \<noteq> CHR ''/''"
      by (cases "p = CHR ''-''") (auto dest: is_digit_not_slash)
  qed
  then show ?thesis by blast
qed

subsection \<open>Computations\<close>

lemma io_bind_Inl [simp]: "io_bind (t, Inl e) f = (t, Inl e)"
  by (simp add: io_bind_def)

lemma io_bind_Inr [simp]: "io_bind (t, Inr x) f = (t @ fst (f x), snd (f x))"
  by (simp add: io_bind_def split: prod.splits)

lemma io_try_Inl [simp]: "io_try (t, Inl e) wrap = (t, Inl (wrap e))"
  by (simp add: io_try_def)

lemma io_try_Inr [simp]: "io_try (t, Inr x) wrap = (t, Inr x)"
  by (simp add: io_try_def)

lemma fst_io_try [simp]: "fst (io_try m wrap) = fst m"
  by (cases m; cases "snd m") (auto simp: io_try_def)

lemma endswith_slash_append [simp]: "endswith (d @ ''/'') ''/''"
  by (simp add: endswith_def suffix_def)

lemma endswith_slash_iff: "endswith s ''/'' \<longleftrightarrow> s \<noteq> [] \<and> last s = CHR ''/''"
  by (cases s rule: rev_cases) (auto simp: endswith_def)

lemma endswith_Nil [simp]: "\<not> endswith [] ''/''"
  by (simp add: endswith_def)

lemma basename_not_absolute [simp]: "\<not> startswith (basename p) ''/''"
proof
  assume "startswith (basename p) ''/''"
  then have "CHR ''/'' \<in> set (basename p)"
    by (cases "basename p") (auto simp: startswith_def)
  then show False
    using basename_no_slash by blast
qed

lemma path_join_basename:
  "path_join a (basename p)
     = (if a = [] \<or> endswith a ''/'' then a @ basename p else a @ ''/'' @ basename p)"
  by (simp add: path_join_def)

subsection \<open>Object names\<close>

text \<open>
  Claim C1, as the code has it: for every file path and every non-empty object name,
  \<^verbatim>\<open>build_object_name\<close> returns the date, the host name and the object name joined
  by slashes. The explicit name gets the same prefix as the default one.
\<close>

theorem build_object_name_explicit:
  "object_name \<noteq> [] \<Longrightarrow>
     build_object_name w file_path object_name
       = today w @ ''/'' @ hostname w @ ''/'' @ object_name"
  by (simp add: build_object_name_def)

theorem build_object_name_explicit_witness:
  "''backup.pdf'' \<noteq> [] \<and>
   build_object_name example_world ''/tmp/report.pdf'' ''backup.pdf''
     = ''2024-05-17/build01/backup.pdf''"
  using build_object_name_explicit [of "''backup.pdf''" example_world "''/tmp/report.pdf''"]
  by (simp add: example_world_def)

text \<open>
  Claim C1 as the specification states it (the object name comes back verbatim) fails
  for the object name \<^verbatim>\<open>backup.pdf\<close>.
\<close>

theorem build_object_name_verbatim_counterexample:
  "''backup.pdf'' \<noteq> [] \<and>
   build_object_name example_world ''/tmp/report.pdf'' ''backup.pdf'' \<noteq> ''backup.pdf''"
  by (simp add: build_object_name_def example_world_def)

text \<open>
  Claim C2: with no object name, \<^verbatim>\<open>build_object_name\<close> returns the date, the host
  name and the base name of the file path joined by slashes; when the date has the shape
  \<^verbatim>\<open>YYYY-MM-DD\<close> and the host name has no slash, the key has exactly these three
  segments.
\<close>

theorem build_object_name_default:
  "build_object_name w file_path []
     = today w @ ''/'' @ hostname w @ ''/'' @ basename file_path \<and>
   (is_ymd (today w) \<and> CHR ''/'' \<notin> set (hostname w) \<longrightarrow>
      split_slash (build_object_name w file_path [])
        = [today w, hostname w, basename file_path])"
proof -
  have eq: "build_object_name w file_path []
              = today w @ CHR ''/'' # hostname w @ CHR ''/'' # basename file_path"
    by (simp add: build_object_name_def)
  have "split_slash (build_object_name w file_path [])
          = [today w, hostname w, basename file_path]"
    if "is_ymd (today w)" and "CHR ''/'' \<notin> set (hostname w)"
    using that basename_no_slash [of file_path] is_ymd_no_slash [of "today w"]
    unfolding eq by (simp add: split_slash_append split_slash_no_slash)
  then show ?thesis
    using eq by simp
qed

theorem build_object_name_default_witness:
  "is_ymd (today example_world) \<and> CHR ''/'' \<notin> set (hostname example_world) \<and>
   build_object_name example_world ''/tmp/report.pdf'' [] = ''2024-05-17/build01/report.pdf'' \<and>
   split_slash (build_object_name example_world ''/tmp/report.pdf'' [])
     = [''2024-05-17'', ''build01'', ''report.pdf'']"
  using build_object_name_default [of example_world "''/tmp/report.pdf''"]
  by (simp add: example_world_def is_ymd_def is_digit_def basename_def)

subsection \<open>Listing\<close>

lemma ls_example_dir:
  "ls example_world example_bucket ''dir'' = ([], Inr [''dir/b.txt''])"
  by (simp add: ls_def get_bucket_def example_world_def example_bucket_def io_return_def
      endswith_slash_iff startswith_def)

lemma ls_example_dir_slash:
  "ls example_world example_bucket ''dir/'' = ([], Inr [''dir/b.txt''])"
  by (simp add: ls_def get_bucket_def example_world_def example_bucket_def io_return_def
      endswith_slash_iff startswith_def)

lemma ls_example_dir_two_slashes:
  "ls example_world example_bucket ''dir//'' = ([], Inr [])"
  by (simp add: ls_def get_bucket_def example_world_def example_bucket_def io_return_def
      endswith_slash_iff startswith_def)

text \<open>
  Claim C3, as the code has it: for every non-empty directory argument that does not end
  with a slash, \<^verbatim>\<open>ls\<close> gives the same result as for the argument with a slash
  appended. When the bucket is accessible and its keys can be listed, \<^verbatim>\<open>ls\<close> returns
  every key for the empty argument, and otherwise the keys that start with the prefix: the
  argument itself when it ends with a slash (however many), and the argument with one
  slash appended when it does not.
\<close>

theorem ls_trailing_slash:
  "(directory \<noteq> [] \<and> \<not> endswith directory ''/'' \<longrightarrow>
      ls w self directory = ls w self (directory @ ''/'')) \<and>
   (creation_date w (bucket_name self) = Inr True \<and>
    objects w (bucket_name self) = Inr keys \<longrightarrow>
      ls w self directory
        = ([], Inr (if directory = [] then keys
                    else filter (\<lambda>key. startswith key
                           (if endswith directory ''/'' then directory else directory @ ''/''))
                         keys)))"
proof (intro conjI impI)
  assume "directory \<noteq> [] \<and> \<not> endswith directory ''/''"
  then show "ls w self directory = ls w self (directory @ ''/'')"
    by (simp add: ls_def)
next
  assume "creation_date w (bucket_name self) = Inr True \<and>
    objects w (bucket_name self) = Inr keys"
  then show "ls w self directory
        = ([], Inr (if directory = [] then keys
                    else filter (\<lambda>key. startswith key
                           (if endswith directory ''/'' then directory else directory @ ''/''))
                         keys))"
    by (simp add: ls_def get_bucket_def io_return_def)
qed

theorem ls_trailing_slash_witness:
  "''dir'' \<noteq> [] \<and> \<not> endswith ''dir'' ''/'' \<and>
   creation_date example_world (bucket_name example_bucket) = Inr True \<and>
   objects example_world (bucket_name example_bucket)
     = Inr [''a.txt'', ''dir/b.txt'', ''dir2/c.txt''] \<and>
   ls example_world example_bucket ''dir'' = ls example_world example_bucket (''dir'' @ ''/'') \<and>
   ls example_world example_bucket ''dir'' = ([], Inr [''dir/b.txt''])"
proof -
  have nonempty: "''dir'' \<noteq> []"
    by simp
  have no_slash: "\<not> endswith ''dir'' ''/''"
    by (simp add: endswith_slash_iff)
  have accessible: "creation_date example_world (bucket_name example_bucket) = Inr True"
    by (simp add: example_world_def)
  have listing: "objects example_world (bucket_name example_bucket)
      = Inr [''a.txt'', ''dir/b.txt'', ''dir2/c.txt'']"
    by (simp add: example_world_def)
  note inst = ls_trailing_slash [of "''dir''" example_world example_bucket
      "[''a.txt'', ''dir/b.txt'', ''dir2/c.txt'']"]
  have same: "ls example_world example_bucket ''dir''
      = ls example_world example_bucket (''dir'' @ ''/'')"
    using conjunct1 [OF inst] nonempty no_slash by blast
  have "ls example_world example_bucket ''dir''
      = ([], Inr (if ''dir'' = [] then [''a.txt'', ''dir/b.txt'', ''dir2/c.txt'']
                  else filter (\<lambda>key. startswith key
                         (if endswith ''dir'' ''/'' then ''dir'' else ''dir'' @ ''/''))
                       [''a.txt'', ''dir/b.txt'', ''dir2/c.txt'']))"
    using conjunct2 [OF inst] accessible listing by blast
  then have listed: "ls example_world example_bucket ''dir'' = ([], Inr [''dir/b.txt''])"
    by (simp add: endswith_slash_iff startswith_def)
  show ?thesis
    using nonempty no_slash accessible listing same listed by (intro conjI)
qed

text \<open>
  Claim C3 as the specification states it fails twice. A non-empty argument is not
  brought to exactly one trailing slash: \<^verbatim>\<open>dir//\<close> stays the prefix \<^verbatim>\<open>dir//\<close> and
  lists nothing, while \<^verbatim>\<open>dir/\<close> lists \<^verbatim>\<open>dir/b.txt\<close>. And the empty argument, which does
  not end with a slash, lists every object, while \<^verbatim>\<open>/\<close> lists only the keys that start
  with a slash.
\<close>

theorem ls_normalisation_counterexample:
  "''dir//'' \<noteq> [] \<and>
   ls example_world example_bucket ''dir//'' \<noteq> ls example_world example_bucket ''dir/'' \<and>
   \<not> endswith [] ''/'' \<and>
   ls example_world example_bucket [] \<noteq> ls example_world example_bucket ([] @ ''/'')"
proof -
  have "ls example_world example_bucket ''dir//'' \<noteq> ls example_world example_bucket ''dir/''"
    by (simp add: ls_example_dir_two_slashes ls_example_dir_slash)
  moreover have "ls example_world example_bucket [] \<noteq> ls example_world example_bucket ([] @ ''/'')"
    by (simp add: ls_def get_bucket_def example_world_def example_bucket_def io_return_def
        startswith_def)
  ultimately show ?thesis
    by simp
qed

subsection \<open>Downloading\<close>

lemma download_destination_directory:
  "d \<noteq> [] \<Longrightarrow> isdir w d \<Longrightarrow>
     download_destination w file_name (Some d)
       = (if endswith d ''/'' then d @ basename file_name else d @ ''/'' @ basename file_name)"
  by (simp add: download_destination_def path_join_basename)

lemma download_destination_verbatim:
  "d \<noteq> [] \<Longrightarrow> \<not> isdir w d \<Longrightarrow> download_destination w file_name (Some d) = d"
  by (simp add: download_destination_def)

lemma download_file_trace:
  "fst (download_file w self file_name destination)
     \<in> {[], [Makedirs (dirname (download_destination w file_name destination))],
         [Makedirs (dirname (download_destination w file_name destination)),
          DownloadFile file_name (download_destination w file_name destination)],
         [Makedirs (dirname (download_destination w file_name destination)),
          DownloadFile file_name (download_destination w file_name destination),
          Print (''Downloaded '' @ quoted file_name @ '' to ''
                 @ quoted (download_destination w file_name destination))]}"
  by (auto simp: download_file_def get_bucket_def os_makedirs_def io_call_def io_return_def
      io_raise_def io_emit_def Let_def split: sum.splits bool.splits option.splits)

text \<open>
  Claim C6 fails in the code for a destination that is a bare file name: the path is kept
  verbatim, its directory name is empty, \<^verbatim>\<open>os.makedirs('')\<close> raises, and nothing is
  downloaded.
\<close>

theorem download_bare_destination_fails:
  "\<not> isdir example_world ''out.txt'' \<and>
   download_file example_world example_bucket ''data/report.txt'' (Some ''out.txt'')
     = ([Makedirs []],
        Inl (''Error downloading file '' @ quoted ''data/report.txt'' @ '' from bucket ''
             @ quoted ''b'' @ '': [Errno 2] No such file or directory: '' @ quoted []))"
  by (simp add: download_file_def download_destination_def get_bucket_def os_makedirs_def
      io_call_def io_return_def dirname_def example_world_def example_bucket_def)

lemma basename_example: "basename ''data/report.txt'' = ''report.txt''"
  by (simp add: basename_def)

lemma dirname_example: "dirname ''/home/user/report.txt'' = ''/home/user''"
  by (simp add: dirname_def)

lemma download_destination_example:
  "download_destination example_world ''data/report.txt'' None = ''/home/user/report.txt''"
  by (simp add: download_destination_def path_join_def startswith_def basename_example
      endswith_slash_iff example_world_def)

lemma download_file_example:
  "download_file example_world example_bucket ''data/report.txt'' None
     = ([Makedirs ''/home/user'', DownloadFile ''data/report.txt'' ''/home/user/report.txt'',
         Print (''Downloaded '' @ quoted ''data/report.txt'' @ '' to ''
                @ quoted ''/home/user/report.txt'')], Inr ())"
proof -
  have "creation_date example_world ''b'' = Inr True"
    and "mkdir_error example_world ''/home/user'' = None"
    and "download_error example_world ''data/report.txt'' ''/home/user/report.txt'' = None"
    and "bucket_name example_bucket = ''b''"
    by (simp_all add: example_world_def example_bucket_def)
  then show ?thesis
    by (simp add: download_file_def download_destination_example dirname_example
        get_bucket_def os_makedirs_def io_call_def io_return_def io_emit_def Let_def)
qed

text \<open>
  Claim C10: with no destination (\<^verbatim>\<open>None\<close> or the empty string) the destination is
  the base name of the key inside the current working directory, whatever
  \<^verbatim>\<open>os.path.isdir\<close> says, and a download that is made goes there.
\<close>

theorem download_default_destination:
  "download_destination w file_name None
     = (if cwd w = [] \<or> endswith (cwd w) ''/'' then cwd w @ basename file_name
        else cwd w @ ''/'' @ basename file_name) \<and>
   download_destination w file_name (Some []) = download_destination w file_name None \<and>
   (\<forall>key path. DownloadFile key path \<in> set (fst (download_file w self file_name None)) \<longrightarrow>
      key = file_name \<and> path = download_destination w file_name None)"
  using download_file_trace [of w self file_name None]
  by (auto simp: download_destination_def path_join_basename)

theorem download_default_destination_witness:
  "DownloadFile ''data/report.txt'' ''/home/user/report.txt''
     \<in> set (fst (download_file example_world example_bucket ''data/report.txt'' None)) \<and>
   ''/home/user/report.txt'' = cwd example_world @ ''/'' @ basename ''data/report.txt''"
proof -
  have made: "DownloadFile ''data/report.txt'' ''/home/user/report.txt''
      \<in> set (fst (download_file example_world example_bucket ''data/report.txt'' None))"
    by (simp add: download_file_example)
  have shape: "\<not> (cwd example_world = [] \<or> endswith (cwd example_world) ''/'')"
    by (simp add: example_world_def endswith_slash_iff)
  from download_default_destination [of example_world "''data/report.txt''" example_bucket]
  have "''/home/user/report.txt'' = download_destination example_world ''data/report.txt'' None"
    and "download_destination example_world ''data/report.txt'' None
           = cwd example_world @ ''/'' @ basename ''data/report.txt''"
    using made shape by auto
  then show ?thesis
    using made by simp
qed

subsection \<open>The script\<close>

lemma missing_s3_params_explicit:
  "missing_s3_params (s3_params args)
     = (if p_access_key args = None then [''ACCESS_KEY''] else []) @
       (if p_secret_key args = None then [''SECRET_KEY''] else []) @
       (if p_bucket_name args = None then [''BUCKET_NAME''] else []) @
       (if p_url args = None then [''URL''] else [])"
  by (simp add: missing_s3_params_def s3_params_def)

lemma missing_s3_params_Nil:
  "missing_s3_params (s3_params args) = [] \<longleftrightarrow>
     p_access_key args \<noteq> None \<and> p_secret_key args \<noteq> None \<and>
     p_bucket_name args \<noteq> None \<and> p_url args \<noteq> None"
  by (simp add: missing_s3_params_explicit)

lemma present_or_missing:
  "missing_s3_params (s3_params args) = [] \<Longrightarrow>
     \<exists>u ak sk bn. (p_url args, p_access_key args, p_secret_key args, p_bucket_name args)
        = (Some u, Some ak, Some sk, Some bn)"
  by (auto simp: missing_s3_params_Nil)

lemma main_missing:
  "missing_s3_params (s3_params (parse_args env_params cli)) \<noteq> [] \<Longrightarrow>
     main w env_params env_exists cli act
       = exit_missing (missing_s3_params (s3_params (parse_args env_params cli)))"
  by (simp add: main_def Let_def)

lemma main_present:
  assumes "parse_args env_params cli =
     \<lparr>p_access_key = Some ak, p_secret_key = Some sk, p_bucket_name = Some bn, p_url = Some u\<rparr>"
  shows "main w env_params env_exists cli act =
     (case connect_and_run w u ak sk bn act of
        (t, Inl e) \<Rightarrow>
          \<lparr>trace = save_env env_exists (parse_args env_params cli) env_params @ t
                     @ [Print (''Error during action '' @ quoted (action_name act) @ '': '' @ e)],
           exit_code = 1\<rparr>
      | (t, Inr _) \<Rightarrow>
          \<lparr>trace = save_env env_exists (parse_args env_params cli) env_params @ t,
           exit_code = 0\<rparr>)"
proof -
  have "missing_s3_params (s3_params (parse_args env_params cli)) = []"
    by (simp add: missing_s3_params_Nil assms)
  then show ?thesis
    by (simp add: main_def Let_def assms)
qed

lemma io_bind_all:
  "list_all P (fst m) \<Longrightarrow> (\<And>x. list_all P (fst (f x))) \<Longrightarrow> list_all P (fst (io_bind m f))"
proof (cases m)
  case (Pair t r)
  assume a: "list_all P (fst m)" and b: "\<And>x. list_all P (fst (f x))"
  show ?thesis
  proof (cases r)
    case (Inl e)
    with Pair a show ?thesis by simp
  next
    case (Inr x)
    with Pair a b [of x] show ?thesis by simp
  qed
qed

lemma io_call_all [simp]: "list_all P (fst (io_call ev err)) = P ev"
  by (simp add: io_call_def)

lemma io_emit_all [simp]: "list_all P (fst (io_emit ev)) = P ev"
  by (simp add: io_emit_def)

lemma io_return_all [simp]: "list_all P (fst (io_return x))"
  by (simp add: io_return_def)

lemma io_raise_all [simp]: "list_all P (fst (io_raise e))"
  by (simp add: io_raise_def)

lemma get_bucket_trace [simp]: "fst (get_bucket w name) = []"
  by (simp add: get_bucket_def io_raise_def io_return_def split: sum.splits bool.splits)

lemma quiet_simps [simp]:
  "quiet (Print s)" "quiet (Makedirs d)" "quiet (UploadFile p k)" "quiet (DownloadFile k p)"
  "quiet (DeleteObjects k)"
  by (simp_all add: quiet_def)

lemma ls_quiet: "list_all quiet (fst (ls w self directory))"
  by (auto simp: ls_def Let_def intro!: io_bind_all split: sum.splits)

lemma upload_file_quiet: "list_all quiet (fst (upload_file w self file_path object_name))"
  by (auto simp: upload_file_def Let_def intro!: io_bind_all)

lemma download_file_quiet: "list_all quiet (fst (download_file w self file_name destination))"
  by (auto simp: download_file_def os_makedirs_def Let_def intro!: io_bind_all)

lemma delete_file_quiet: "list_all quiet (fst (delete_file w self file_name))"
  by (auto simp: delete_file_def intro!: io_bind_all)

lemma print_files_quiet: "list_all quiet (fst (print_files files))"
  by (simp add: print_files_def io_emit_def list_all_iff)

lemma run_action_quiet: "list_all quiet (fst (run_action w self act))"
  by (cases act)
     (auto simp: run_action_def Let_def intro!: io_bind_all ls_quiet upload_file_quiet
        download_file_quiet delete_file_quiet print_files_quiet)

lemma connect_and_run_trace:
  "\<exists>t. fst (connect_and_run w u ak sk bn act)
         = Print (''Connecting to S3 bucket: '' @ bn) # Resource u ak sk # t \<and>
       list_all quiet t"
proof (cases "resource_error w u ak sk")
  case None
  then show ?thesis
    using run_action_quiet
    by (simp add: connect_and_run_def Bucket_init_def connect_def io_emit_def io_call_def
        io_return_def)
next
  case (Some e)
  then show ?thesis
    by (simp add: connect_and_run_def Bucket_init_def connect_def io_emit_def io_call_def)
qed

lemma connect_and_run_no_write: "\<not> env_written (fst (connect_and_run w u ak sk bn act))"
proof -
  obtain t where "fst (connect_and_run w u ak sk bn act)
      = Print (''Connecting to S3 bucket: '' @ bn) # Resource u ak sk # t" and "list_all quiet t"
    using connect_and_run_trace by blast
  then show ?thesis
    by (auto simp: env_written_def list_ex_iff list_all_iff quiet_def)
qed

lemma connect_and_run_attempts:
  "connection_attempted (fst (connect_and_run w u ak sk bn act))"
proof -
  obtain t where "fst (connect_and_run w u ak sk bn act)
      = Print (''Connecting to S3 bucket: '' @ bn) # Resource u ak sk # t"
    using connect_and_run_trace by blast
  then show ?thesis
    by (simp add: connection_attempted_def)
qed

lemma env_written_save_env:
  "env_written (save_env env_exists args env_params)
     \<longleftrightarrow> \<not> env_exists \<and> cli_provided_s3_params args env_params"
  by (simp add: save_env_def env_written_def)

lemma env_written_append [simp]: "env_written (s @ t) \<longleftrightarrow> env_written s \<or> env_written t"
  by (auto simp: env_written_def list_ex_iff)

lemma exit_missing_quiet:
  "\<not> env_written (trace (exit_missing m))" "\<not> connection_attempted (trace (exit_missing m))"
  by (simp_all add: exit_missing_def env_written_def connection_attempted_def)

lemma parse_args_only_access_key:
  "parse_args no_params only_access_key = only_access_key"
  by (simp add: parse_args_def arg_value_def no_params_def only_access_key_def)

text \<open>
  Claim C4: when at least one of the four connection parameters resolves to absent, the
  script prints the names of exactly the absent ones, in the order of the dictionary, then
  a hint, and exits with status 1 without calling \<^verbatim>\<open>boto3.resource\<close>.
\<close>

theorem missing_parameters_exit:
  assumes "args = parse_args env_params cli"
    and "p_access_key args = None \<or> p_secret_key args = None \<or>
         p_bucket_name args = None \<or> p_url args = None"
  shows "main w env_params env_exists cli act =
           \<lparr>trace = [Print (''Error: Missing required S3 connection parameters: '' @
                       join_str '', ''
                         ((if p_access_key args = None then [''ACCESS_KEY''] else []) @
                          (if p_secret_key args = None then [''SECRET_KEY''] else []) @
                          (if p_bucket_name args = None then [''BUCKET_NAME''] else []) @
                          (if p_url args = None then [''URL''] else []))),
                     Print ''Please provide them via command line arguments or a .env file.''],
            exit_code = 1\<rparr> \<and>
         \<not> connection_attempted (trace (main w env_params env_exists cli act))"
proof -
  have "missing_s3_params (s3_params (parse_args env_params cli)) \<noteq> []"
    using assms by (auto simp: missing_s3_params_Nil)
  then have "main w env_params env_exists cli act
      = exit_missing (missing_s3_params (s3_params args))"
    using assms(1) by (simp add: main_missing)
  then show ?thesis
    by (simp add: exit_missing_def missing_s3_params_explicit connection_attempted_def)
qed

theorem missing_parameters_exit_witness:
  "main example_world no_params False only_access_key (Ls []) =
     \<lparr>trace = [Print ''Error: Missing required S3 connection parameters: SECRET_KEY, BUCKET_NAME, URL'',
               Print ''Please provide them via command line arguments or a .env file.''],
      exit_code = 1\<rparr>"
proof -
  have h1: "only_access_key = parse_args no_params only_access_key"
    by (simp add: parse_args_only_access_key)
  have h2: "p_access_key only_access_key = None \<or> p_secret_key only_access_key = None \<or>
         p_bucket_name only_access_key = None \<or> p_url only_access_key = None"
    by (simp add: only_access_key_def)
  have "p_access_key only_access_key = Some ''AK''" "p_secret_key only_access_key = None"
    "p_bucket_name only_access_key = None" "p_url only_access_key = None"
    by (simp_all add: only_access_key_def)
  with missing_parameters_exit [OF h1 h2, of example_world False "Ls []"]
  show ?thesis
    by simp
qed

lemma connect_and_run_example_ls:
  "connect_and_run example_world ''http://s3.local'' ''AK'' ''SK'' ''b'' (Ls ''dir'')
     = ([Print ''Connecting to S3 bucket: b'',
         Resource ''http://s3.local'' ''AK'' ''SK'',
         Print (''Listing objects in bucket '' @ quoted ''b'' @ '' (prefix: ''
                @ quoted ''dir'' @ ''):''),
         Print ''- dir/b.txt''], Inr ())"
proof -
  have "resource_error example_world ''http://s3.local'' ''AK'' ''SK'' = None"
    by (simp add: example_world_def)
  moreover have "ls example_world
      \<lparr>url = ''http://s3.local'', access_key = ''AK'', secret_key = ''SK'', bucket_name = ''b''\<rparr>
      ''dir'' = ([], Inr [''dir/b.txt''])"
    using ls_example_dir by (simp add: example_bucket_def)
  ultimately show ?thesis
    by (simp add: connect_and_run_def Bucket_init_def connect_def run_action_def io_emit_def
        io_call_def io_return_def print_files_def)
qed

lemma parse_args_cli_only: "parse_args no_params all_params = all_params"
  by (simp add: parse_args_def arg_value_def no_params_def all_params_def)

text \<open>
  Claim C5, as the code has it: \<^verbatim>\<open>.env\<close> is written if and only if all four
  resolved parameters are present, no \<^verbatim>\<open>.env\<close> exists, and at least one resolved
  parameter differs from the value loaded from the environment; otherwise it is untouched.
\<close>

theorem env_written_iff:
  "env_written (trace (main w env_params env_exists cli act)) \<longleftrightarrow>
     (p_access_key (parse_args env_params cli) \<noteq> None \<and>
      p_secret_key (parse_args env_params cli) \<noteq> None \<and>
      p_bucket_name (parse_args env_params cli) \<noteq> None \<and>
      p_url (parse_args env_params cli) \<noteq> None) \<and>
     \<not> env_exists \<and>
     cli_provided_s3_params (parse_args env_params cli) env_params"
proof (cases "missing_s3_params (s3_params (parse_args env_params cli)) = []")
  case False
  then show ?thesis
    using exit_missing_quiet(1) by (auto simp: main_missing missing_s3_params_Nil)
next
  case True
  then obtain u ak sk bn where args: "parse_args env_params cli =
      \<lparr>p_access_key = Some ak, p_secret_key = Some sk, p_bucket_name = Some bn, p_url = Some u\<rparr>"
    by (cases "parse_args env_params cli") (auto simp: missing_s3_params_Nil)
  obtain t r where run: "connect_and_run w u ak sk bn act = (t, r)"
    by (cases "connect_and_run w u ak sk bn act")
  have "\<not> env_written t"
    using connect_and_run_no_write [of w u ak sk bn act] run by simp
  then have "env_written (trace (main w env_params env_exists cli act)) \<longleftrightarrow>
      env_written (save_env env_exists (parse_args env_params cli) env_params)"
    by (cases r) (simp_all add: main_present [OF args] run env_written_def)
  then show ?thesis
    by (simp add: env_written_save_env args)
qed

theorem env_written_iff_witness:
  "env_written (trace (main example_world no_params False all_params (Ls ''dir''))) \<and>
   \<not> env_written (trace (main example_world no_params True all_params (Ls ''dir''))) \<and>
   \<not> env_written (trace (main example_world all_params False all_params (Ls ''dir'')))"
proof -
  have "p_bucket_name all_params \<noteq> p_bucket_name no_params"
    by (simp add: no_params_def all_params_def)
  then have a: "cli_provided_s3_params (parse_args no_params all_params) no_params"
    by (simp only: parse_args_cli_only cli_provided_s3_params_def simp_thms)
  have b: "\<not> cli_provided_s3_params (parse_args all_params all_params) all_params"
    by (simp add: parse_args_def arg_value_def cli_provided_s3_params_def all_params_def)
  have c: "p_access_key (parse_args no_params all_params) \<noteq> None \<and>
      p_secret_key (parse_args no_params all_params) \<noteq> None \<and>
      p_bucket_name (parse_args no_params all_params) \<noteq> None \<and>
      p_url (parse_args no_params all_params) \<noteq> None"
    unfolding parse_args_cli_only by (simp add: all_params_def)
  show ?thesis
    using a b c
      env_written_iff [of example_world no_params False all_params "Ls ''dir''"]
      env_written_iff [of example_world no_params True all_params "Ls ''dir''"]
      env_written_iff [of example_world all_params False all_params "Ls ''dir''"]
    by blast
qed

text \<open>
  Claim C5 as the specification states it (without the condition that all four parameters
  are present) fails when only the access key is given: no \<^verbatim>\<open>.env\<close> exists and the
  access key differs from the loaded one, but the script exits at the check of line 142.
\<close>

theorem env_not_written_counterexample:
  "\<not> (env_written (trace (main example_world no_params False only_access_key (Ls ''dir'')))
        \<longleftrightarrow> \<not> False \<and>
            cli_provided_s3_params (parse_args no_params only_access_key) no_params)"
proof -
  have "missing_s3_params (s3_params (parse_args no_params only_access_key)) \<noteq> []"
    unfolding parse_args_only_access_key
    by (simp add: missing_s3_params_explicit only_access_key_def)
  then have "\<not> env_written (trace (main example_world no_params False only_access_key (Ls ''dir'')))"
    using exit_missing_quiet(1) by (simp add: main_missing)
  moreover have "p_access_key only_access_key \<noteq> p_access_key no_params"
    by (simp add: no_params_def only_access_key_def)
  then have "cli_provided_s3_params (parse_args no_params only_access_key) no_params"
    by (simp only: parse_args_only_access_key cli_provided_s3_params_def simp_thms)
  ultimately show ?thesis
    by simp
qed

lemma write_env_in_trace: "WriteEnv lines \<in> set t \<Longrightarrow> env_written t"
  by (force simp: env_written_def list_ex_iff)

lemma write_env_in_save_env:
  "WriteEnv lines \<in> set (save_env env_exists args env_params) \<Longrightarrow> lines = env_lines args"
  by (simp add: save_env_def split: if_splits)

lemma main_write_env:
  assumes "WriteEnv lines \<in> set (trace (main w env_params env_exists cli act))"
  shows "lines = env_lines (parse_args env_params cli)"
proof (cases "missing_s3_params (s3_params (parse_args env_params cli)) = []")
  case False
  then show ?thesis
    using assms by (simp add: main_missing exit_missing_def)
next
  case True
  then obtain u ak sk bn where args: "parse_args env_params cli =
      \<lparr>p_access_key = Some ak, p_secret_key = Some sk, p_bucket_name = Some bn, p_url = Some u\<rparr>"
    by (cases "parse_args env_params cli") (auto simp: missing_s3_params_Nil)
  obtain t r where run: "connect_and_run w u ak sk bn act = (t, r)"
    by (cases "connect_and_run w u ak sk bn act")
  have "WriteEnv lines \<notin> set t"
    using connect_and_run_no_write [of w u ak sk bn act] run write_env_in_trace by fastforce
  then have "WriteEnv lines \<in> set (save_env env_exists (parse_args env_params cli) env_params)"
    using assms by (cases r) (simp_all add: main_present [OF args] run)
  then show ?thesis
    by (rule write_env_in_save_env)
qed

lemma main_attempts_connection:
  assumes "parse_args env_params cli =
     \<lparr>p_access_key = Some ak, p_secret_key = Some sk, p_bucket_name = Some bn, p_url = Some u\<rparr>"
  shows "connection_attempted (trace (main w env_params env_exists cli act))"
proof -
  obtain t r where run: "connect_and_run w u ak sk bn act = (t, r)"
    by (cases "connect_and_run w u ak sk bn act")
  have "connection_attempted t"
    using connect_and_run_attempts [of w u ak sk bn act] run by simp
  then show ?thesis
    by (cases r) (simp_all add: main_present [OF assms] run connection_attempted_def)
qed

lemma connect_and_run_no_bucket_delete:
  "connect_and_run no_bucket_world ''http://s3.local'' ''AK'' ''SK'' ''b'' (Delete ''x'')
     = ([Print ''Connecting to S3 bucket: b'',
         Resource ''http://s3.local'' ''AK'' ''SK'',
         Print (''Attempting to delete '' @ quoted ''x'' @ '' from bucket '' @ quoted ''b''
                @ ''...'')],
        Inl (''Error deleting file '' @ quoted ''x'' @ '' from bucket '' @ quoted ''b''
             @ '': Error accessing bucket '' @ quoted ''b'' @ '': Bucket '' @ quoted ''b''
             @ '' does not exist or is not accessible.''))"
proof -
  have "resource_error no_bucket_world ''http://s3.local'' ''AK'' ''SK'' = None"
    and "creation_date no_bucket_world ''b'' = Inr False"
    by (simp_all add: no_bucket_world_def example_world_def)
  then show ?thesis
    by (simp add: connect_and_run_def Bucket_init_def connect_def run_action_def
        delete_file_def get_bucket_def io_emit_def io_call_def io_return_def io_raise_def)
qed

text \<open>
  Claim C7: past the check of the parameters, an exception of the connection or of the
  action is caught, printed after \<^verbatim>\<open>Error during action '<name>': \<close> as the last
  line, and the exit status is 1; when no exception is raised the exit status is 0.
\<close>

theorem top_level_catch:
  assumes "parse_args env_params cli =
     \<lparr>p_access_key = Some ak, p_secret_key = Some sk, p_bucket_name = Some bn, p_url = Some u\<rparr>"
  shows "(\<forall>t e. connect_and_run w u ak sk bn act = (t, Inl e) \<longrightarrow>
            exit_code (main w env_params env_exists cli act) = 1 \<and>
            trace (main w env_params env_exists cli act)
              = save_env env_exists (parse_args env_params cli) env_params @ t @
                [Print (''Error during action '' @ quoted (action_name act) @ '': '' @ e)]) \<and>
         (\<forall>t. connect_and_run w u ak sk bn act = (t, Inr ()) \<longrightarrow>
            exit_code (main w env_params env_exists cli act) = 0 \<and>
            trace (main w env_params env_exists cli act)
              = save_env env_exists (parse_args env_params cli) env_params @ t)"
  by (simp add: main_present [OF assms])

theorem top_level_catch_witness:
  "exit_code (main no_bucket_world all_params True no_params (Delete ''x'')) = 1 \<and>
   last (trace (main no_bucket_world all_params True no_params (Delete ''x'')))
     = Print (''Error during action '' @ quoted ''delete'' @ '': Error deleting file ''
              @ quoted ''x'' @ '' from bucket '' @ quoted ''b''
              @ '': Error accessing bucket '' @ quoted ''b'' @ '': Bucket '' @ quoted ''b''
              @ '' does not exist or is not accessible.'') \<and>
   exit_code (main example_world all_params True no_params (Ls ''dir'')) = 0"
proof -
  have args: "parse_args all_params no_params =
      \<lparr>p_access_key = Some ''AK'', p_secret_key = Some ''SK'', p_bucket_name = Some ''b'',
       p_url = Some ''http://s3.local''\<rparr>"
    by (simp add: parse_args_def arg_value_def no_params_def all_params_def)
  show ?thesis
    using top_level_catch [OF args, of no_bucket_world "Delete ''x''" True]
      top_level_catch [OF args, of example_world "Ls ''dir''" True]
    by (simp add: connect_and_run_no_bucket_delete connect_and_run_example_ls)
qed

lemma connect_failure:
  "resource_error w u ak sk = Some e \<Longrightarrow>
     connect_and_run w u ak sk bn act
       = ([Print (''Connecting to S3 bucket: '' @ bn), Resource u ak sk],
          Inl (''Error connecting to resource: '' @ e))"
  by (simp add: connect_and_run_def Bucket_init_def connect_def io_emit_def io_call_def)

lemma parse_args_only_url:
  "parse_args all_params only_url =
     \<lparr>p_access_key = Some ''AK'', p_secret_key = Some ''SK'', p_bucket_name = Some ''b'',
      p_url = Some ''http://other''\<rparr>"
  by (simp add: parse_args_def arg_value_def all_params_def only_url_def)

text \<open>
  Claim C8: each of the four resolved parameters is the command-line flag when the flag is
  given and the loaded environment value otherwise, each on its own; and when any of them
  resolves to absent the script exits with status 1 without connecting.
\<close>

theorem cli_flag_precedence:
  "s3_params (parse_args env_params cli)
     = [(''ACCESS_KEY'',
          case p_access_key cli of Some v \<Rightarrow> Some v | None \<Rightarrow> p_access_key env_params),
        (''SECRET_KEY'',
          case p_secret_key cli of Some v \<Rightarrow> Some v | None \<Rightarrow> p_secret_key env_params),
        (''BUCKET_NAME'',
          case p_bucket_name cli of Some v \<Rightarrow> Some v | None \<Rightarrow> p_bucket_name env_params),
        (''URL'',
          case p_url cli of Some v \<Rightarrow> Some v | None \<Rightarrow> p_url env_params)] \<and>
   ((\<exists>key. (key, None) \<in> set (s3_params (parse_args env_params cli))) \<longrightarrow>
      exit_code (main w env_params env_exists cli act) = 1 \<and>
      \<not> connection_attempted (trace (main w env_params env_exists cli act)))"
proof -
  have "exit_code (main w env_params env_exists cli act) = 1 \<and>
      \<not> connection_attempted (trace (main w env_params env_exists cli act))"
    if "(key, None) \<in> set (s3_params (parse_args env_params cli))" for key
  proof -
    have "p_access_key (parse_args env_params cli) = None \<or>
        p_secret_key (parse_args env_params cli) = None \<or>
        p_bucket_name (parse_args env_params cli) = None \<or>
        p_url (parse_args env_params cli) = None"
      using that by (auto simp: s3_params_def)
    then have "missing_s3_params (s3_params (parse_args env_params cli)) \<noteq> []"
      by (auto simp: missing_s3_params_Nil)
    then show ?thesis
      using exit_missing_quiet(2) by (simp add: main_missing exit_missing_def)
  qed
  then have fatal: "(\<exists>key. (key, None) \<in> set (s3_params (parse_args env_params cli))) \<longrightarrow>
      exit_code (main w env_params env_exists cli act) = 1 \<and>
      \<not> connection_attempted (trace (main w env_params env_exists cli act))"
    by blast
  have "s3_params (parse_args env_params cli)
     = [(''ACCESS_KEY'',
          case p_access_key cli of Some v \<Rightarrow> Some v | None \<Rightarrow> p_access_key env_params),
        (''SECRET_KEY'',
          case p_secret_key cli of Some v \<Rightarrow> Some v | None \<Rightarrow> p_secret_key env_params),
        (''BUCKET_NAME'',
          case p_bucket_name cli of Some v \<Rightarrow> Some v | None \<Rightarrow> p_bucket_name env_params),
        (''URL'',
          case p_url cli of Some v \<Rightarrow> Some v | None \<Rightarrow> p_url env_params)]"
    by (simp add: s3_params_def parse_args_def arg_value_def)
  then show ?thesis
    using fatal by (rule conjI)
qed

theorem cli_flag_precedence_witness:
  "s3_params (parse_args all_params only_url)
     = [(''ACCESS_KEY'', p_access_key all_params), (''SECRET_KEY'', p_secret_key all_params),
        (''BUCKET_NAME'', p_bucket_name all_params), (''URL'', Some ''http://other'')] \<and>
   (''URL'', None) \<in> set (s3_params (parse_args no_params only_access_key)) \<and>
   exit_code (main example_world no_params False only_access_key (Ls ''dir'')) = 1"
proof -
  have absent: "(''URL'', None) \<in> set (s3_params (parse_args no_params only_access_key))"
    unfolding parse_args_only_access_key by (simp add: s3_params_def only_access_key_def)
  have flags: "p_access_key only_url = None" "p_secret_key only_url = None"
    "p_bucket_name only_url = None" "p_url only_url = Some ''http://other''"
    by (simp_all add: only_url_def)
  have resolved: "s3_params (parse_args all_params only_url)
     = [(''ACCESS_KEY'', p_access_key all_params), (''SECRET_KEY'', p_secret_key all_params),
        (''BUCKET_NAME'', p_bucket_name all_params), (''URL'', Some ''http://other'')]"
    using conjunct1 [OF cli_flag_precedence [of all_params only_url example_world False "Ls ''dir''"]]
    by (simp only: flags option.case)
  have "exit_code (main example_world no_params False only_access_key (Ls ''dir'')) = 1"
    using conjunct2 [OF cli_flag_precedence
        [of no_params only_access_key example_world False "Ls ''dir''"]] absent
    by blast
  then show ?thesis
    using resolved absent by (intro conjI)
qed

lemma env_lines_present:
  "env_lines \<lparr>p_access_key = Some ak, p_secret_key = Some sk, p_bucket_name = Some bn,
              p_url = Some u\<rparr>
     = (if ak = [] then [] else [''ACCESS_KEY='' @ ak]) @
       (if sk = [] then [] else [''SECRET_KEY='' @ sk]) @
       (if bn = [] then [] else [''BUCKET_NAME='' @ bn]) @
       (if u = [] then [] else [''URL='' @ u])"
  by (simp add: env_lines_def env_line_def truthy_def py_str_def)

lemma parse_args_empty_access_key:
  "parse_args no_params empty_access_key = empty_access_key"
  by (simp add: parse_args_def arg_value_def no_params_def empty_access_key_def)

lemma main_empty_access_key_writes:
  "WriteEnv [''SECRET_KEY=SK'', ''BUCKET_NAME=b'', ''URL=http://s3.local'']
     \<in> set (trace (main example_world no_params False empty_access_key (Ls ''dir'')))"
proof -
  have args: "parse_args no_params empty_access_key =
      \<lparr>p_access_key = Some [], p_secret_key = Some ''SK'', p_bucket_name = Some ''b'',
       p_url = Some ''http://s3.local''\<rparr>"
    unfolding parse_args_empty_access_key by (simp add: empty_access_key_def)
  have "p_access_key no_params = None"
    by (simp add: no_params_def)
  then have "save_env False (parse_args no_params empty_access_key) no_params
      = [Print ''Saving provided S3 parameters to .env file for future use.'',
         WriteEnv [''SECRET_KEY=SK'', ''BUCKET_NAME=b'', ''URL=http://s3.local'']]"
    unfolding args by (simp add: save_env_def cli_provided_s3_params_def env_lines_present)
  moreover obtain t r where
    "connect_and_run example_world ''http://s3.local'' [] ''SK'' ''b'' (Ls ''dir'') = (t, r)"
    by (cases "connect_and_run example_world ''http://s3.local'' [] ''SK'' ''b'' (Ls ''dir'')")
  ultimately show ?thesis
    by (cases r) (simp_all add: main_present [OF args])
qed

text \<open>
  Claim C9: when the four parameters resolve to strings, empty ones included, none is
  missing and the script goes on to connect; and whatever is written to \<^verbatim>\<open>.env\<close>
  has a line for each non-empty parameter and none for an empty one.
\<close>

theorem empty_string_present_not_saved:
  assumes "parse_args env_params cli =
     \<lparr>p_access_key = Some ak, p_secret_key = Some sk, p_bucket_name = Some bn, p_url = Some u\<rparr>"
  shows "missing_s3_params (s3_params (parse_args env_params cli)) = [] \<and>
         connection_attempted (trace (main w env_params env_exists cli act)) \<and>
         (\<forall>lines. WriteEnv lines \<in> set (trace (main w env_params env_exists cli act)) \<longrightarrow>
            lines = (if ak = [] then [] else [''ACCESS_KEY='' @ ak]) @
                    (if sk = [] then [] else [''SECRET_KEY='' @ sk]) @
                    (if bn = [] then [] else [''BUCKET_NAME='' @ bn]) @
                    (if u = [] then [] else [''URL='' @ u]))"
proof -
  have "missing_s3_params (s3_params (parse_args env_params cli)) = []"
    by (simp add: missing_s3_params_Nil assms)
  moreover have "connection_attempted (trace (main w env_params env_exists cli act))"
    using assms by (rule main_attempts_connection)
  moreover have "lines = (if ak = [] then [] else [''ACCESS_KEY='' @ ak]) @
                    (if sk = [] then [] else [''SECRET_KEY='' @ sk]) @
                    (if bn = [] then [] else [''BUCKET_NAME='' @ bn]) @
                    (if u = [] then [] else [''URL='' @ u])"
    if "WriteEnv lines \<in> set (trace (main w env_params env_exists cli act))" for lines
    using main_write_env [OF that] by (simp only: assms env_lines_present)
  ultimately show ?thesis
    by blast
qed

theorem empty_string_present_not_saved_witness:
  "p_access_key (parse_args no_params empty_access_key) = Some [] \<and>
   missing_s3_params (s3_params (parse_args no_params empty_access_key)) = [] \<and>
   connection_attempted (trace (main example_world no_params False empty_access_key (Ls ''dir''))) \<and>
   WriteEnv [''SECRET_KEY=SK'', ''BUCKET_NAME=b'', ''URL=http://s3.local'']
     \<in> set (trace (main example_world no_params False empty_access_key (Ls ''dir'')))"
proof -
  have args: "parse_args no_params empty_access_key =
      \<lparr>p_access_key = Some [], p_secret_key = Some ''SK'', p_bucket_name = Some ''b'',
       p_url = Some ''http://s3.local''\<rparr>"
    unfolding parse_args_empty_access_key by (simp add: empty_access_key_def)
  have key: "p_access_key (parse_args no_params empty_access_key) = Some []"
    by (simp add: args)
  note inst = empty_string_present_not_saved [OF args, of example_world False "Ls ''dir''"]
  from inst have present: "missing_s3_params (s3_params (parse_args no_params empty_access_key)) = []"
    by (rule conjunct1)
  from inst have attempted: "connection_attempted
      (trace (main example_world no_params False empty_access_key (Ls ''dir'')))"
    by (rule conjunct1 [OF conjunct2])
  show ?thesis
    using key present attempted main_empty_access_key_writes by (intro conjI)
qed

end
